theory Spec2Isabelle
  imports Main "HOL-Library.Sublist" "HOL-Library.Multiset"
begin

section \<open>Values of the platform\<close>

text \<open>
  A JavaScript string is a sequence of UTF-16 code units. The model is \<^typ>\<open>string\<close>:
  one \<^typ>\<open>char\<close> per code unit, covering the code units U+0000 to U+00FF.
  A JavaScript number is modelled by \<^typ>\<open>int\<close> together with the value NaN: the
  application only ever stores the result of \<^verbatim>\<open>parseInt\<close>, and the model is exact
  for magnitudes a double represents exactly (below \<open>2 ^ 53\<close>).
\<close>

datatype number = NaN | Num int

fun isNaN :: "number \<Rightarrow> bool" where
  "isNaN NaN = True"
| "isNaN (Num n) = False"

datatype js_error = SyntaxError | TypeError

text \<open>
  The values \<^verbatim>\<open>JSON.parse\<close> returns, numbers restricted to integers. \<open>JObj\<close>
  lists the properties of an object in their order; the keys of a parsed object are
  distinct.
\<close>

datatype json =
  JNull
| JBool bool
| JNum int
| JStr string
| JArr "json list"
| JObj "(string \<times> json) list"

text \<open>
  A value held by \<^verbatim>\<open>localStorage\<close> is a string. The program observes two things
  about it: whether it is the empty string (the truthiness test), and what
  \<^verbatim>\<open>JSON.parse\<close> makes of it. The model keeps exactly that:
  \<^item> \<open>EmptyString\<close> is the string \<^verbatim>\<open>""\<close> (which \<^verbatim>\<open>JSON.parse\<close> rejects);
  \<^item> \<open>NotJSON\<close> is any non-empty string that \<^verbatim>\<open>JSON.parse\<close> rejects with a
    SyntaxError, such as \<^verbatim>\<open>"not json {"\<close>;
  \<^item> \<open>JSONText j\<close> is a string that \<^verbatim>\<open>JSON.parse\<close> accepts, returning \<open>j\<close>;
    \<^verbatim>\<open>JSON.stringify\<close> of a value with this content writes such a string.
\<close>

datatype stored_text = EmptyString | NotJSON | JSONText json

fun truthy :: "stored_text option \<Rightarrow> bool" where
  "truthy None = False"
| "truthy (Some EmptyString) = False"
| "truthy (Some NotJSON) = True"
| "truthy (Some (JSONText j)) = True"

fun JSON_parse :: "stored_text \<Rightarrow> js_error + json" where
  "JSON_parse EmptyString = Inl SyntaxError"
| "JSON_parse NotJSON = Inl SyntaxError"
| "JSON_parse (JSONText j) = Inr j"

section \<open>Book and BookBuilder\<close>

record Book =
  title :: string
  author :: string
  year :: int
  id' :: string
  genre :: "string option"

definition Book_new :: "string \<Rightarrow> string \<Rightarrow> int \<Rightarrow> string \<Rightarrow> Book" where
  "Book_new t a y i = \<lparr>title = t, author = a, year = y, id' = i, genre = None\<rparr>"

record BookBuilder =
  builder_title :: string
  builder_author :: string
  builder_year :: int
  builder_id :: string
  builder_genre :: "string option"

definition BookBuilder_new :: "string \<Rightarrow> string \<Rightarrow> int \<Rightarrow> string \<Rightarrow> BookBuilder" where
  "BookBuilder_new t a y i =
     \<lparr>builder_title = t, builder_author = a, builder_year = y, builder_id = i,
      builder_genre = None\<rparr>"

definition setGenre :: "string \<Rightarrow> BookBuilder \<Rightarrow> BookBuilder" where
  "setGenre g bb = bb\<lparr>builder_genre := Some g\<rparr>"

definition build :: "BookBuilder \<Rightarrow> Book" where
  "build bb =
     (let book = Book_new (builder_title bb) (builder_author bb) (builder_year bb) (builder_id bb)
      in book\<lparr>genre := builder_genre bb\<rparr>)"

text \<open>
  What \<^verbatim>\<open>JSON.stringify\<close> writes for one book: its own properties in the order the
  constructor assigned them; a property whose value is \<^verbatim>\<open>undefined\<close> is left out.
\<close>

definition Book_toJSON :: "Book \<Rightarrow> json" where
  "Book_toJSON b =
     JObj ([(''title'', JStr (title b)), (''author'', JStr (author b)),
            (''year'', JNum (year b)), (''id'', JStr (id' b))]
           @ (case genre b of None \<Rightarrow> [] | Some g \<Rightarrow> [(''genre'', JStr g)]))"

definition JSON_stringify :: "Book list \<Rightarrow> stored_text" where
  "JSON_stringify bs = JSONText (JArr (map Book_toJSON bs))"

text \<open>
  \<^verbatim>\<open>Number.prototype.toString\<close> on an integer (decimal digits, a minus sign
  before a negative number), and the template string of \<^verbatim>\<open>displayInfo\<close>.
\<close>

function decimal :: "nat \<Rightarrow> string" where
  "decimal n =
     (if n < 10 then [char_of (48 + n)] else decimal (n div 10) @ [char_of (48 + n mod 10)])"
  by pat_completeness auto
termination
  by (relation "measure (\<lambda>n. n)") auto

declare decimal.simps [simp del]

definition Number_toString :: "int \<Rightarrow> string" where
  "Number_toString n = (if n < 0 then CHR ''-'' # decimal (nat (- n)) else decimal (nat n))"

definition displayInfo :: "Book \<Rightarrow> string" where
  "displayInfo b =
     ''<strong>'' @ title b @ ''</strong><br>Author: '' @ author b @ ''<br>Year: ''
       @ Number_toString (year b)"

section \<open>Library\<close>

text \<open>An observer is an object; \<^verbatim>\<open>!==\<close> compares object identity, here a number.\<close>

type_synonym IObserver = nat

record Library =
  books :: "Book list"
  observers :: "IObserver list"

definition localStorageKey :: string where
  "localStorageKey = ''bookLibrary''"

text \<open>
  Everything outside the library object that its methods touch: the key/value store, the
  error console, and the calls \<^verbatim>\<open>update(library)\<close> the observers have received
  (the observer called, and the collection the library held at the call). An observer is
  taken to do nothing to the library while it is being called: the one observer of the
  program, \<^verbatim>\<open>DOMObserver\<close>, redraws the list and returns.
\<close>

type_synonym console_entry = "string \<times> js_error option"

record world =
  localStorage :: "string \<rightharpoonup> stored_text"
  console :: "console_entry list"
  updates :: "(IObserver \<times> Book list) list"

definition console_error :: "console_entry \<Rightarrow> world \<Rightarrow> world" where
  "console_error e w = w\<lparr>console := console w @ [e]\<rparr>"

definition update :: "IObserver \<Rightarrow> Library \<Rightarrow> world \<Rightarrow> world" where
  "update observer L w = w\<lparr>updates := updates w @ [(observer, books L)]\<rparr>"

definition attach :: "IObserver \<Rightarrow> Library \<Rightarrow> Library" where
  "attach observer L = L\<lparr>observers := observers L @ [observer]\<rparr>"

definition detach :: "IObserver \<Rightarrow> Library \<Rightarrow> Library" where
  "detach observer L = L\<lparr>observers := filter (\<lambda>obs. obs \<noteq> observer) (observers L)\<rparr>"

definition notify :: "Library \<Rightarrow> world \<Rightarrow> world" where
  "notify L w = fold (\<lambda>observer. update observer L) (observers L) w"

definition saveToLocalStorage :: "Library \<Rightarrow> world \<Rightarrow> world" where
  "saveToLocalStorage L w =
     w\<lparr>localStorage := (localStorage w)(localStorageKey \<mapsto> JSON_stringify (books L))\<rparr>"

definition addBook :: "Book \<Rightarrow> Library \<times> world \<Rightarrow> Library \<times> world" where
  "addBook book = (\<lambda>(L, w).
     (let L1 = L\<lparr>books := books L @ [book]\<rparr>;
          w1 = saveToLocalStorage L1 w;
          w2 = notify L1 w1
      in (L1, w2)))"

definition removeBook :: "Book \<Rightarrow> Library \<times> world \<Rightarrow> Library \<times> world" where
  "removeBook book = (\<lambda>(L, w).
     (let L1 = L\<lparr>books := filter (\<lambda>b. id' b \<noteq> id' book) (books L)\<rparr>;
          w1 = saveToLocalStorage L1 w;
          w2 = notify L1 w1
      in (L1, w2)))"

definition getBooks :: "Library \<Rightarrow> Book list" where
  "getBooks L = books L"

subsection \<open>Loading\<close>

text \<open>
  Reading a property of a parsed value: \<^verbatim>\<open>null.title\<close> throws a TypeError, a
  property an object does not have is \<^verbatim>\<open>undefined\<close> (\<open>None\<close>), and numbers,
  booleans, strings and arrays have none of the four properties read here.
\<close>

fun property :: "json \<Rightarrow> string \<Rightarrow> js_error + json option" where
  "property JNull k = Inl TypeError"
| "property (JObj kvs) k = Inr (map_of kvs k)"
| "property v k = Inr None"

text \<open>
  \<^verbatim>\<open>new Book(bookData.title, bookData.author, bookData.year, bookData.id)\<close>.
  The cast to \<^verbatim>\<open>IBook[]\<close> is unchecked, so the constructor can receive values
  that are not of the declared field types. Such a book is not a value of the typed record
  \<^typ>\<open>Book\<close>: the result is then \<open>Inr None\<close>, and nothing is claimed about it.
\<close>

definition Book_of_data :: "json \<Rightarrow> js_error + Book option" where
  "Book_of_data bookData =
     (case property bookData ''title'' of
        Inl e \<Rightarrow> Inl e
      | Inr t \<Rightarrow>
     (case property bookData ''author'' of
        Inl e \<Rightarrow> Inl e
      | Inr a \<Rightarrow>
     (case property bookData ''year'' of
        Inl e \<Rightarrow> Inl e
      | Inr y \<Rightarrow>
     (case property bookData ''id'' of
        Inl e \<Rightarrow> Inl e
      | Inr i \<Rightarrow>
          Inr (case (t, a, y, i) of
                 (Some (JStr t'), Some (JStr a'), Some (JNum y'), Some (JStr i')) \<Rightarrow>
                   Some (Book_new t' a' y' i')
               | _ \<Rightarrow> None)))))"

text \<open>
  \<^verbatim>\<open>parsedBooks.map(...)\<close>: the elements in order; the first one that throws ends
  the loop with its error.
\<close>

fun parsedBooks_map :: "json list \<Rightarrow> js_error + Book list option" where
  "parsedBooks_map [] = Inr (Some [])"
| "parsedBooks_map (bookData # rest) =
     (case Book_of_data bookData of
        Inl e \<Rightarrow> Inl e
      | Inr b \<Rightarrow>
          (case parsedBooks_map rest of
             Inl e \<Rightarrow> Inl e
           | Inr bs \<Rightarrow>
               Inr (case (b, bs) of (Some b', Some bs') \<Rightarrow> Some (b' # bs') | _ \<Rightarrow> None)))"

fun Array_isArray :: "json \<Rightarrow> bool" where
  "Array_isArray (JArr xs) = True"
| "Array_isArray v = False"

fun elements :: "json \<Rightarrow> json list" where
  "elements (JArr xs) = xs"
| "elements v = []"

definition msg_invalid :: string where
  "msg_invalid = ''Invalid data in local storage.  Expected an array.''"

definition msg_parsing :: string where
  "msg_parsing = ''Error parsing books from local storage:''"

text \<open>The \<^verbatim>\<open>catch\<close> block of \<^verbatim>\<open>loadFromLocalStorage\<close>.\<close>

definition load_catch :: "js_error \<Rightarrow> Library \<times> world \<Rightarrow> Library \<times> world" where
  "load_catch e = (\<lambda>(L, w).
     (let w1 = console_error (msg_parsing, Some e) w;
          w2 = w1\<lparr>localStorage := (localStorage w1)(localStorageKey := None)\<rparr>
      in (L\<lparr>books := []\<rparr>, w2)))"

text \<open>
  \<^verbatim>\<open>loadFromLocalStorage\<close>. The result is \<open>None\<close> only when the stored array holds
  an element that is not of the shape of \<^verbatim>\<open>IBook\<close> (see \<open>Book_of_data\<close>).
\<close>

definition loadFromLocalStorage :: "Library \<times> world \<Rightarrow> (Library \<times> world) option" where
  "loadFromLocalStorage = (\<lambda>(L, w).
     (let storedBooks = localStorage w localStorageKey in
      if truthy storedBooks then
        (case storedBooks of
           None \<Rightarrow> Some (L, w)
         | Some text' \<Rightarrow>
             (case JSON_parse text' of
                Inl e \<Rightarrow> Some (load_catch e (L, w))
              | Inr parsedBooks \<Rightarrow>
                  if Array_isArray parsedBooks then
                    (case parsedBooks_map (elements parsedBooks) of
                       Inl e \<Rightarrow> Some (load_catch e (L, w))
                     | Inr None \<Rightarrow> None
                     | Inr (Some bs) \<Rightarrow> Some (L\<lparr>books := bs\<rparr>, w))
                  else Some (L, console_error (msg_invalid, None) w)))
      else Some (L, w)))"

text \<open>\<^verbatim>\<open>new Library()\<close>: the field initialisers, then the load.\<close>

definition Library_new :: "world \<Rightarrow> (Library \<times> world) option" where
  "Library_new w = loadFromLocalStorage (\<lparr>books = [], observers = []\<rparr>, w)"

section \<open>Commands\<close>

text \<open>
  A command holds a book and a reference to a library; the state of that library (and of
  the world around it) is what \<open>execute\<close> and \<open>undo\<close> take and return.
\<close>

datatype ICommand = AddBookCommand Book | RemoveBookCommand Book

fun execute :: "ICommand \<Rightarrow> Library \<times> world \<Rightarrow> Library \<times> world" where
  "execute (AddBookCommand book) s = addBook book s"
| "execute (RemoveBookCommand book) s = removeBook book s"

fun undo :: "ICommand \<Rightarrow> Library \<times> world \<Rightarrow> Library \<times> world" where
  "undo (AddBookCommand book) s = removeBook book s"
| "undo (RemoveBookCommand book) s = addBook book s"

section \<open>Search strategies\<close>

text \<open>
  \<^verbatim>\<open>String.prototype.toLowerCase\<close> on the code units U+0000 to U+00FF: the letters
  A to Z, and U+00C0 to U+00DE without the multiplication sign U+00D7, move up by 32; every
  other code unit of that range is its own lower case.
\<close>

definition toLowerCase_unit :: "char \<Rightarrow> char" where
  "toLowerCase_unit c =
     (let n = (of_char c :: nat) in
      if (65 \<le> n \<and> n \<le> 90) \<or> (192 \<le> n \<and> n \<le> 222 \<and> n \<noteq> 215)
      then char_of (n + 32) else c)"

definition toLowerCase :: "string \<Rightarrow> string" where
  "toLowerCase s = map toLowerCase_unit s"

text \<open>\<^verbatim>\<open>s.includes(q)\<close>: \<open>q\<close> starts at some position of \<open>s\<close>.\<close>

fun String_includes :: "string \<Rightarrow> string \<Rightarrow> bool" where
  "String_includes [] q = (q = [])"
| "String_includes (c # cs) q = (prefix q (c # cs) \<or> String_includes cs q)"

text \<open>
  \<^verbatim>\<open>parseInt(string)\<close> with no radix, as ECMAScript defines it: leading white space
  is dropped, then a sign, then a prefix \<^verbatim>\<open>0x\<close> or \<^verbatim>\<open>0X\<close> (which selects
  radix 16; the radix is 10 otherwise); the value is that of the longest run of digits of
  the radix that follows, and NaN when that run is empty.
\<close>

definition StrWhiteSpaceChar :: "char \<Rightarrow> bool" where
  "StrWhiteSpaceChar c = ((of_char c :: nat) \<in> {9, 10, 11, 12, 13, 32, 160})"

definition digit_of :: "char \<Rightarrow> nat option" where
  "digit_of c =
     (let n = (of_char c :: nat) in
      if 48 \<le> n \<and> n \<le> 57 then Some (n - 48)
      else if 97 \<le> n \<and> n \<le> 122 then Some (n - 87)
      else if 65 \<le> n \<and> n \<le> 90 then Some (n - 55)
      else None)"

definition is_digit :: "nat \<Rightarrow> char \<Rightarrow> bool" where
  "is_digit R c = (case digit_of c of None \<Rightarrow> False | Some d \<Rightarrow> d < R)"

definition digits_value :: "nat \<Rightarrow> string \<Rightarrow> nat" where
  "digits_value R Z = foldl (\<lambda>a c. a * R + (case digit_of c of None \<Rightarrow> 0 | Some d \<Rightarrow> d)) 0 Z"

fun strip_sign :: "string \<Rightarrow> int \<times> string" where
  "strip_sign [] = (1, [])"
| "strip_sign (c # cs) =
     (if c = CHR ''-'' then (- 1, cs) else if c = CHR ''+'' then (1, cs) else (1, c # cs))"

fun strip_prefix :: "string \<Rightarrow> nat \<times> string" where
  "strip_prefix (c # d # cs) =
     (if c = CHR ''0'' \<and> (d = CHR ''x'' \<or> d = CHR ''X'') then (16, cs) else (10, c # d # cs))"
| "strip_prefix cs = (10, cs)"

definition parseInt :: "string \<Rightarrow> number" where
  "parseInt string =
     (let S = dropWhile StrWhiteSpaceChar string;
          (sign, S1) = strip_sign S;
          (R, S2) = strip_prefix S1;
          Z = takeWhile (is_digit R) S2
      in if Z = [] then NaN else Num (sign * int (digits_value R Z)))"

datatype ISearchStrategy = TitleSearchStrategy | AuthorSearchStrategy | YearSearchStrategy

fun search :: "ISearchStrategy \<Rightarrow> Book list \<Rightarrow> string \<Rightarrow> Book list" where
  "search TitleSearchStrategy books' query =
     filter (\<lambda>book. String_includes (toLowerCase (title book)) (toLowerCase query)) books'"
| "search AuthorSearchStrategy books' query =
     filter (\<lambda>book. String_includes (toLowerCase (author book)) (toLowerCase query)) books'"
| "search YearSearchStrategy books' query =
     (let year' = parseInt query in
      if isNaN year' then [] else filter (\<lambda>book. Num (year book) = year') books')"

record SearchManager =
  strategy :: ISearchStrategy

definition setStrategy :: "ISearchStrategy \<Rightarrow> SearchManager \<Rightarrow> SearchManager" where
  "setStrategy s m = m\<lparr>strategy := s\<rparr>"

definition SearchManager_search :: "SearchManager \<Rightarrow> Book list \<Rightarrow> string \<Rightarrow> Book list" where
  "SearchManager_search m books' query = search (strategy m) books' query"

section \<open>Example data\<close>

definition empty_world :: world where
  "empty_world = \<lparr>localStorage = Map.empty, console = [], updates = []\<rparr>"

definition empty_library :: Library where
  "empty_library = \<lparr>books = [], observers = []\<rparr>"

definition hobbit :: Book where
  "hobbit =
     build (setGenre ''Fantasy'' (BookBuilder_new ''The Hobbit'' ''J.R.R. Tolkien'' 1937 ''b1''))"

definition fellowship :: Book where
  "fellowship =
     build (BookBuilder_new ''The Fellowship of the Ring'' ''J.R.R. Tolkien'' 1954 ''b2'')"


text \<open>A second book carrying the id of \<open>hobbit\<close>: ids are not checked on add.\<close>

definition silmarillion :: Book where
  "silmarillion = build (BookBuilder_new ''The Silmarillion'' ''J.R.R. Tolkien'' 1977 ''b1'')"


text \<open>A store that holds the given text under the key of the library, and nothing else.\<close>

definition world_with :: "stored_text \<Rightarrow> world" where
  "world_with t = \<lparr>localStorage = [localStorageKey \<mapsto> t], console = [], updates = []\<rparr>"

section \<open>The specification's notions\<close>





section \<open>Basic facts\<close>

lemma notify_updates:
  "notify L w = w\<lparr>updates := updates w @ map (\<lambda>observer. (observer, books L)) (observers L)\<rparr>"
proof -
  have "fold (\<lambda>observer. update observer L) os w
          = w\<lparr>updates := updates w @ map (\<lambda>observer. (observer, books L)) os\<rparr>" for os
    by (induction os arbitrary: w) (simp_all add: update_def)
  then show ?thesis by (simp add: notify_def)
qed

lemma books_addBook: "books (fst (addBook b (L, w))) = books L @ [b]"
  by (simp add: addBook_def Let_def)

lemma books_removeBook:
  "books (fst (removeBook b (L, w))) = filter (\<lambda>x. id' x \<noteq> id' b) (books L)"
  by (simp add: removeBook_def Let_def)

lemmas book_defs = build_def setGenre_def BookBuilder_new_def Book_new_def

lemma snd_addBook:
  "snd (addBook b (L, w)) =
     w\<lparr>localStorage := (localStorage w)(localStorageKey \<mapsto> JSON_stringify (books L @ [b])),
       updates := updates w @ map (\<lambda>observer. (observer, books L @ [b])) (observers L)\<rparr>"
  by (simp add: addBook_def Let_def notify_updates saveToLocalStorage_def)

lemma snd_removeBook:
  "snd (removeBook b (L, w)) =
     w\<lparr>localStorage := (localStorage w)(localStorageKey \<mapsto>
          JSON_stringify (filter (\<lambda>x. id' x \<noteq> id' b) (books L))),
       updates := updates w @
          map (\<lambda>observer. (observer, filter (\<lambda>x. id' x \<noteq> id' b) (books L))) (observers L)\<rparr>"
  by (simp add: removeBook_def Let_def notify_updates saveToLocalStorage_def)

lemma fst_addBook: "fst (addBook b (L, w)) = L\<lparr>books := books L @ [b]\<rparr>"
  by (simp add: addBook_def Let_def)

lemma fst_removeBook:
  "fst (removeBook b (L, w)) = L\<lparr>books := filter (\<lambda>x. id' x \<noteq> id' b) (books L)\<rparr>"
  by (simp add: removeBook_def Let_def)

lemma addBook_pair: "addBook b (L, w) = (fst (addBook b (L, w)), snd (addBook b (L, w)))"
  by simp

lemma removeBook_pair:
  "removeBook b (L, w) = (fst (removeBook b (L, w)), snd (removeBook b (L, w)))"
  by simp

lemma remove_after_add:
  "fst (removeBook b (addBook b (L, w))) = L\<lparr>books := filter (\<lambda>x. id' x \<noteq> id' b) (books L)\<rparr>"
  by (subst addBook_pair) (simp add: fst_removeBook fst_addBook)

lemma add_after_remove:
  "fst (addBook b (removeBook b (L, w)))
     = L\<lparr>books := filter (\<lambda>x. id' x \<noteq> id' b) (books L) @ [b]\<rparr>"
  by (subst removeBook_pair) (simp add: fst_removeBook fst_addBook)

lemma filter_last_unique:
  assumes "filter (\<lambda>x. id' x = id' B) xs = [B]" and "last xs = B"
  shows "filter (\<lambda>x. id' x \<noteq> id' B) xs @ [B] = xs"
proof -
  from assms(1) have "xs \<noteq> []" by auto
  then obtain ys where xs: "xs = ys @ [B]"
    using assms(2) by (metis append_butlast_last_id)
  with assms(1) have "filter (\<lambda>x. id' x = id' B) ys = []" by simp
  then have "filter (\<lambda>x. id' x \<noteq> id' B) ys = ys"
    by (simp add: filter_empty_conv filter_id_conv)
  with xs show ?thesis by simp
qed

lemma execute_observers: "observers (fst (execute c (L, w))) = observers L"
  by (cases c) (simp_all add: fst_addBook fst_removeBook)

lemma execute_updates:
  "\<exists>bs. updates (snd (execute c (L, w))) = updates w @ map (\<lambda>observer. (observer, bs)) (observers L)"
  by (cases c) (simp_all add: snd_addBook snd_removeBook)

lemma fold_execute_unobserved:
  "o' \<notin> set (observers L) \<Longrightarrow>
     filter (\<lambda>u. fst u = o') (updates (snd (fold execute cs (L, w))))
       = filter (\<lambda>u. fst u = o') (updates w)"
proof (induction cs arbitrary: L w)
  case Nil
  then show ?case by simp
next
  case (Cons c cs)
  obtain L1 w1 where s: "execute c (L, w) = (L1, w1)" by (cases "execute c (L, w)")
  have obs: "observers L1 = observers L" using execute_observers [of c L w] s by simp
  obtain bs where "updates w1 = updates w @ map (\<lambda>observer. (observer, bs)) (observers L)"
    using execute_updates [of c L w] s by auto
  then have "filter (\<lambda>u. fst u = o') (updates w1) = filter (\<lambda>u. fst u = o') (updates w)"
    using Cons.prems by (auto simp: filter_empty_conv)
  moreover have "filter (\<lambda>u. fst u = o') (updates (snd (fold execute cs (L1, w1))))
       = filter (\<lambda>u. fst u = o') (updates w1)"
    using Cons.IH [of L1 w1] Cons.prems obs by simp
  ultimately show ?case using s by simp
qed

subsection \<open>Reloading a saved collection\<close>

lemma Book_of_data_toJSON: "Book_of_data (Book_toJSON b) = Inr (Some (b\<lparr>genre := None\<rparr>))"
  by (cases "genre b") (simp_all add: Book_of_data_def Book_toJSON_def Book_new_def)

lemma parsedBooks_map_toJSON:
  "parsedBooks_map (map Book_toJSON bs) = Inr (Some (map (\<lambda>b. b\<lparr>genre := None\<rparr>) bs))"
  by (induction bs) (simp_all add: Book_of_data_toJSON)

lemma Library_new_saved:
  "localStorage w localStorageKey = Some (JSON_stringify bs) \<Longrightarrow>
     Library_new w = Some (\<lparr>books = map (\<lambda>b. b\<lparr>genre := None\<rparr>) bs, observers = []\<rparr>, w)"
  by (simp add: Library_new_def loadFromLocalStorage_def JSON_stringify_def parsedBooks_map_toJSON)

lemma reload_after_addBook:
  "Library_new (snd (addBook b (L, w)))
     = Some (\<lparr>books = map (\<lambda>x. x\<lparr>genre := None\<rparr>) (books L @ [b]), observers = []\<rparr>,
             snd (addBook b (L, w)))"
  by (rule Library_new_saved) (simp add: snd_addBook)

lemma reload_after_removeBook:
  "Library_new (snd (removeBook b (L, w)))
     = Some (\<lparr>books = map (\<lambda>x. x\<lparr>genre := None\<rparr>) (filter (\<lambda>x. id' x \<noteq> id' b) (books L)),
              observers = []\<rparr>,
             snd (removeBook b (L, w)))"
  by (rule Library_new_saved) (simp add: snd_removeBook)

subsection \<open>Lower case and containment\<close>

lemma of_char_less_256: "(of_char c :: nat) < 256"
  by (metis of_char_mod_256 mod_less_divisor zero_less_numeral)








subsection \<open>Decimal numerals and parseInt\<close>















section \<open>Removal by id\<close>

text \<open>
  Claim C5. For every library state and every book \<open>b\<close>, \<^verbatim>\<open>removeBook(b)\<close>
  removes exactly the entries of the collection whose id equals \<open>b.id\<close> (all of them, if
  there are duplicates) and keeps the remaining entries in their relative order: the new
  collection is the old one filtered by id, no entry with that id is left, the entries
  that disappeared are exactly those with that id, and the new collection is a
  subsequence of the old one.
\<close>

theorem removeBook_removes_by_id:
  "books (fst (removeBook b (L, w))) = filter (\<lambda>x. id' x \<noteq> id' b) (books L)
   \<and> (\<forall>x \<in> set (books (fst (removeBook b (L, w)))). id' x \<noteq> id' b)
   \<and> set (books L) - set (books (fst (removeBook b (L, w)))) = {x \<in> set (books L). id' x = id' b}
   \<and> subseq (books (fst (removeBook b (L, w)))) (books L)"
  by (auto simp: fst_removeBook)

text \<open>
  Three books, two of them with the id \<^verbatim>\<open>b1\<close>: removing one removes both.
\<close>

theorem removeBook_removes_by_id_witness:
  "books (fst (removeBook silmarillion
      (\<lparr>books = [hobbit, fellowship, silmarillion], observers = []\<rparr>, empty_world))) = [fellowship]"
  using removeBook_removes_by_id [of silmarillion
      "\<lparr>books = [hobbit, fellowship, silmarillion], observers = []\<rparr>" empty_world]
  by (simp add: hobbit_def fellowship_def silmarillion_def book_defs)

section \<open>Add and its undo\<close>

text \<open>
  Claim C2 says that \<^verbatim>\<open>execute()\<close> of an AddBookCommand followed by its
  \<^verbatim>\<open>undo()\<close> restores the collection for every library state and book. It does not
  when the collection already holds an entry with the id of the added book: the undo
  removes by id, and takes that entry away too.
\<close>

theorem add_undo_counterexample:
  "books (fst (undo (AddBookCommand silmarillion) (execute (AddBookCommand silmarillion)
      (\<lparr>books = [hobbit], observers = []\<rparr>, empty_world))))
   \<noteq> books \<lparr>books = [hobbit], observers = []\<rparr>"
  by (simp add: remove_after_add hobbit_def silmarillion_def book_defs)

text \<open>
  Claim C2, amended. For every library state whose collection holds no entry with the id
  of \<open>b\<close>, executing \<open>AddBookCommand b\<close> and then its undo restores the library object
  (collection and observer list) to the state before the add.
\<close>

theorem add_undo_restores:
  assumes "\<forall>x \<in> set (books L). id' x \<noteq> id' b"
  shows "fst (undo (AddBookCommand b) (execute (AddBookCommand b) (L, w))) = L"
proof -
  have "filter (\<lambda>x. id' x \<noteq> id' b) (books L) = books L"
    using assms by (simp add: filter_id_conv)
  then show ?thesis by (simp add: remove_after_add)
qed

theorem add_undo_restores_witness:
  "fst (undo (AddBookCommand fellowship) (execute (AddBookCommand fellowship)
      (\<lparr>books = [hobbit], observers = [0]\<rparr>, empty_world))) = \<lparr>books = [hobbit], observers = [0]\<rparr>"
  by (rule add_undo_restores) (simp add: hobbit_def fellowship_def book_defs)

section \<open>Remove, then add\<close>

text \<open>
  Claim C3 says that \<^verbatim>\<open>removeBook(B)\<close> followed by \<^verbatim>\<open>addBook(B)\<close>
  restores the collection, order included, for every book \<open>B\<close> of the collection. The
  add appends at the end, so a book that was not last comes back in another place.
\<close>

theorem remove_add_counterexample:
  "hobbit \<in> set (books \<lparr>books = [hobbit, fellowship], observers = []\<rparr>)
   \<and> books (fst (addBook hobbit (removeBook hobbit
        (\<lparr>books = [hobbit, fellowship], observers = []\<rparr>, empty_world))))
     \<noteq> books \<lparr>books = [hobbit, fellowship], observers = []\<rparr>"
  by (simp add: add_after_remove hobbit_def fellowship_def book_defs)

text \<open>
  Claim C3, amended. For every book \<open>B\<close> that is the only entry of the collection with
  its id, \<^verbatim>\<open>removeBook(B)\<close> followed by \<^verbatim>\<open>addBook(B)\<close> keeps the same
  books: the other entries keep their relative order and \<open>B\<close> is appended after them. The
  collection is restored exactly when \<open>B\<close> was its last entry.
\<close>

theorem remove_add_moves_to_end:
  assumes "filter (\<lambda>x. id' x = id' B) (books L) = [B]"
  shows "books (fst (addBook B (removeBook B (L, w))))
           = filter (\<lambda>x. id' x \<noteq> id' B) (books L) @ [B]
         \<and> mset (books (fst (addBook B (removeBook B (L, w))))) = mset (books L)
         \<and> (books (fst (addBook B (removeBook B (L, w)))) = books L \<longleftrightarrow> last (books L) = B)"
proof -
  let ?rest = "filter (\<lambda>x. id' x \<noteq> id' B) (books L)"
  have res: "books (fst (addBook B (removeBook B (L, w)))) = ?rest @ [B]"
    by (simp add: add_after_remove)
  have "mset (books L) = mset (filter (\<lambda>x. id' x = id' B) (books L)) + mset ?rest"
    by (simp add: mset_filter)
  then have perm: "mset (?rest @ [B]) = mset (books L)"
    using assms by simp
  have "?rest @ [B] = books L \<longleftrightarrow> last (books L) = B"
  proof
    assume "?rest @ [B] = books L"
    then have "last (books L) = last (?rest @ [B])" by simp
    then show "last (books L) = B" by simp
  next
    assume "last (books L) = B"
    with assms show "?rest @ [B] = books L" by (rule filter_last_unique)
  qed
  with res perm show ?thesis by simp
qed

theorem remove_add_moves_to_end_witness:
  "books (fst (addBook hobbit (removeBook hobbit
      (\<lparr>books = [hobbit, fellowship], observers = []\<rparr>, empty_world)))) = [fellowship, hobbit]
   \<and> books (fst (addBook fellowship (removeBook fellowship
      (\<lparr>books = [hobbit, fellowship], observers = []\<rparr>, empty_world)))) = [hobbit, fellowship]"
  using remove_add_moves_to_end [of hobbit "\<lparr>books = [hobbit, fellowship], observers = []\<rparr>" empty_world]
    remove_add_moves_to_end [of fellowship "\<lparr>books = [hobbit, fellowship], observers = []\<rparr>" empty_world]
  by (simp add: hobbit_def fellowship_def book_defs)

section \<open>Removing an id that is not there\<close>

text \<open>
  Claim C10. For every library state and every book \<open>b\<close> whose id matches no entry of
  the collection, \<^verbatim>\<open>removeBook(b)\<close> leaves the collection as it is, and still writes
  the snapshot of the collection under the storage key (whatever was stored there) and
  still calls \<^verbatim>\<open>update\<close> of every attached observer.
\<close>

theorem removeBook_absent_id:
  assumes "\<forall>x \<in> set (books L). id' x \<noteq> id' b"
  shows "books (fst (removeBook b (L, w))) = books L
         \<and> localStorage (snd (removeBook b (L, w))) localStorageKey = Some (JSON_stringify (books L))
         \<and> updates (snd (removeBook b (L, w)))
             = updates w @ map (\<lambda>observer. (observer, books L)) (observers L)"
proof -
  have "filter (\<lambda>x. id' x \<noteq> id' b) (books L) = books L"
    using assms by (simp add: filter_id_conv)
  then show ?thesis by (simp add: fst_removeBook snd_removeBook)
qed

theorem removeBook_absent_id_witness:
  "books (fst (removeBook fellowship (\<lparr>books = [hobbit], observers = [4, 7]\<rparr>,
      empty_world\<lparr>localStorage := [localStorageKey \<mapsto> NotJSON]\<rparr>))) = [hobbit]
   \<and> localStorage (snd (removeBook fellowship (\<lparr>books = [hobbit], observers = [4, 7]\<rparr>,
      empty_world\<lparr>localStorage := [localStorageKey \<mapsto> NotJSON]\<rparr>))) localStorageKey
       = Some (JSON_stringify [hobbit])
   \<and> updates (snd (removeBook fellowship (\<lparr>books = [hobbit], observers = [4, 7]\<rparr>,
      empty_world\<lparr>localStorage := [localStorageKey \<mapsto> NotJSON]\<rparr>)))
       = [(4, [hobbit]), (7, [hobbit])]"
  using removeBook_absent_id [of "\<lparr>books = [hobbit], observers = [4, 7]\<rparr>" fellowship
      "empty_world\<lparr>localStorage := [localStorageKey \<mapsto> NotJSON]\<rparr>"]
  by (simp add: hobbit_def fellowship_def empty_world_def book_defs)

section \<open>Notification\<close>

text \<open>
  Claim C8. A call of \<^verbatim>\<open>addBook\<close> or \<^verbatim>\<open>removeBook\<close> calls
  \<^verbatim>\<open>update\<close> once for every entry of the observer list, in the order of the list,
  with the collection as it is after the mutation; \<^verbatim>\<open>attach\<close> appends to that list,
  so the order is the order of attachment and an observer attached twice is called twice;
  and after \<^verbatim>\<open>detach(ob)\<close> no sequence of add and remove commands calls
  \<open>ob\<close> again.
\<close>

theorem notify_each_observer_once:
  "updates (snd (addBook b (L, w)))
     = updates w @ map (\<lambda>observer. (observer, books L @ [b])) (observers L)
   \<and> updates (snd (removeBook b (L, w)))
     = updates w @ map (\<lambda>observer. (observer, filter (\<lambda>x. id' x \<noteq> id' b) (books L))) (observers L)
   \<and> observers (attach ob L) = observers L @ [ob]
   \<and> map fst (drop (length (updates w)) (updates (snd (addBook b (attach ob (attach ob L), w)))))
     = observers L @ [ob, ob]
   \<and> filter (\<lambda>u. fst u = ob) (updates (snd (fold execute cs (detach ob L, w))))
     = filter (\<lambda>u. fst u = ob) (updates w)"
  by (simp add: snd_addBook snd_removeBook attach_def fold_execute_unobserved detach_def comp_def)

text \<open>
  Observers 4 and 7 attached, then 4 again: one \<^verbatim>\<open>addBook\<close> calls 4, 7, 4 in that
  order; after \<^verbatim>\<open>detach(4)\<close>, an add and a remove call 7 only.
\<close>

theorem notify_each_observer_once_witness:
  "updates (snd (addBook hobbit (attach 4 (attach 7 (attach 4 empty_library)), empty_world)))
     = [(4, [hobbit]), (7, [hobbit]), (4, [hobbit])]
   \<and> filter (\<lambda>u. fst u = 4) (updates (snd (fold execute
        [AddBookCommand hobbit, RemoveBookCommand hobbit]
        (detach 4 (attach 4 (attach 7 (attach 4 empty_library))), empty_world)))) = []"
  using notify_each_observer_once [of hobbit "attach 4 (attach 7 (attach 4 empty_library))"
      empty_world 4 "[AddBookCommand hobbit, RemoveBookCommand hobbit]"]
    notify_each_observer_once [of hobbit "attach 7 (attach 4 empty_library)"
      empty_world 4 "[AddBookCommand hobbit, RemoveBookCommand hobbit]"]
  by (simp add: attach_def empty_library_def empty_world_def)

text \<open>
  Claim C9. \<^verbatim>\<open>detach(ob)\<close> removes every registration of \<open>ob\<close>: the observer
  list is filtered by identity, \<open>ob\<close> is not in it afterwards, one detach undoes two
  attaches, and the next \<^verbatim>\<open>addBook\<close> or \<^verbatim>\<open>removeBook\<close> calls \<open>ob\<close>
  not once.
\<close>

theorem detach_removes_all:
  "observers (detach ob L) = filter (\<lambda>obs. obs \<noteq> ob) (observers L)
   \<and> ob \<notin> set (observers (detach ob L))
   \<and> detach ob (attach ob (attach ob L)) = detach ob L
   \<and> filter (\<lambda>u. fst u = ob) (updates (snd (addBook b (detach ob (attach ob (attach ob L)), w))))
       = filter (\<lambda>u. fst u = ob) (updates w)
   \<and> filter (\<lambda>u. fst u = ob) (updates (snd (removeBook b (detach ob (attach ob (attach ob L)), w))))
       = filter (\<lambda>u. fst u = ob) (updates w)"
  by (simp add: detach_def attach_def snd_addBook snd_removeBook filter_empty_conv)

text \<open>Observer 4 attached twice and 7 once: after one \<^verbatim>\<open>detach(4)\<close> only 7 is left.\<close>

theorem detach_removes_all_witness:
  "observers (detach 4 (attach 4 (attach 7 (attach 4 empty_library)))) = [7]
   \<and> updates (snd (addBook hobbit (detach 4 (attach 4 (attach 7 (attach 4 empty_library))),
        empty_world))) = [(7, [hobbit])]"
  using detach_removes_all [of 4 "attach 4 (attach 7 (attach 4 empty_library))" hobbit empty_world]
  by (simp add: detach_def attach_def empty_library_def empty_world_def snd_addBook)

section \<open>Construction and the persisted snapshot\<close>

text \<open>
  Claim C4 names three outcomes of the load at construction; the third is that a value that
  is present but unparsable is logged and deleted. The empty string is present and
  \<^verbatim>\<open>JSON.parse\<close> rejects it, yet the guard \<^verbatim>\<open>if (storedBooks)\<close> treats
  it like an absent value: nothing is logged and the key stays.
\<close>

theorem load_empty_string_counterexample:
  "localStorage (world_with EmptyString) localStorageKey = Some EmptyString
   \<and> JSON_parse EmptyString = Inl SyntaxError
   \<and> map_option (\<lambda>s. console (snd s)) (Library_new (world_with EmptyString)) = Some []
   \<and> map_option (\<lambda>s. localStorage (snd s) localStorageKey) (Library_new (world_with EmptyString))
       = Some (Some EmptyString)"
  by (simp add: world_with_def Library_new_def loadFromLocalStorage_def)

text \<open>
  Claim C4, amended. Construction has a three-way load outcome: if the persisted value is
  absent or the empty string, the collection starts empty and nothing else happens; if it
  is present and parses to a value that is not an array, an error is logged, the
  collection is left empty and the persisted value is left untouched; if it is present,
  not the empty string, and does not parse, the error is logged, the persisted key is
  deleted, and the collection starts empty.
\<close>

theorem Library_new_outcomes:
  "(localStorage w localStorageKey = None \<or> localStorage w localStorageKey = Some EmptyString
      \<longrightarrow> Library_new w = Some (\<lparr>books = [], observers = []\<rparr>, w))
   \<and> (\<forall>j. localStorage w localStorageKey = Some (JSONText j) \<and> \<not> Array_isArray j
      \<longrightarrow> Library_new w
            = Some (\<lparr>books = [], observers = []\<rparr>, w\<lparr>console := console w @ [(msg_invalid, None)]\<rparr>))
   \<and> (\<forall>t e. localStorage w localStorageKey = Some t \<and> t \<noteq> EmptyString \<and> JSON_parse t = Inl e
      \<longrightarrow> Library_new w
            = Some (\<lparr>books = [], observers = []\<rparr>,
                    w\<lparr>console := console w @ [(msg_parsing, Some e)],
                      localStorage := (localStorage w)(localStorageKey := None)\<rparr>))"
proof (intro conjI allI impI)
  assume "localStorage w localStorageKey = None \<or> localStorage w localStorageKey = Some EmptyString"
  then show "Library_new w = Some (\<lparr>books = [], observers = []\<rparr>, w)"
    by (auto simp: Library_new_def loadFromLocalStorage_def)
next
  fix j
  assume "localStorage w localStorageKey = Some (JSONText j) \<and> \<not> Array_isArray j"
  then show "Library_new w
      = Some (\<lparr>books = [], observers = []\<rparr>, w\<lparr>console := console w @ [(msg_invalid, None)]\<rparr>)"
    by (simp add: Library_new_def loadFromLocalStorage_def console_error_def)
next
  fix t e
  assume a: "localStorage w localStorageKey = Some t \<and> t \<noteq> EmptyString \<and> JSON_parse t = Inl e"
  then have "truthy (Some t)" by (cases t) simp_all
  with a show "Library_new w
      = Some (\<lparr>books = [], observers = []\<rparr>,
              w\<lparr>console := console w @ [(msg_parsing, Some e)],
                localStorage := (localStorage w)(localStorageKey := None)\<rparr>)"
    by (simp add: Library_new_def loadFromLocalStorage_def load_catch_def console_error_def Let_def)
qed

text \<open>
  The three outcomes at an empty store, at the stored text \<^verbatim>\<open>{"a":1}\<close> and at a
  stored text that is not JSON.
\<close>

theorem Library_new_outcomes_witness:
  "Library_new empty_world = Some (\<lparr>books = [], observers = []\<rparr>, empty_world)
   \<and> Library_new (world_with (JSONText (JObj [(''a'', JNum 1)])))
       = Some (\<lparr>books = [], observers = []\<rparr>,
               \<lparr>localStorage = [localStorageKey \<mapsto> JSONText (JObj [(''a'', JNum 1)])],
                console = [(msg_invalid, None)], updates = []\<rparr>)
   \<and> Library_new (world_with NotJSON)
       = Some (\<lparr>books = [], observers = []\<rparr>,
               \<lparr>localStorage = Map.empty, console = [(msg_parsing, Some SyntaxError)], updates = []\<rparr>)"
  using Library_new_outcomes [of empty_world]
    Library_new_outcomes [of "world_with (JSONText (JObj [(''a'', JNum 1)]))"]
    Library_new_outcomes [of "world_with NotJSON"]
  by (simp add: empty_world_def world_with_def)

text \<open>
  Claim C1 says that a fresh library over the store an \<^verbatim>\<open>addBook\<close> has written
  holds an equivalent collection, every field preserved, the optional genre included. The
  snapshot does hold the genre, but the load builds each book from title, author, year and
  id alone: a book added with a genre comes back without it. (The order and the four other
  fields are preserved: \<open>reload_after_addBook\<close>.)
\<close>

theorem reload_drops_genre:
  "Library_new empty_world = Some (empty_library, empty_world)
   \<and> books (fst (addBook hobbit (empty_library, empty_world))) = [hobbit]
   \<and> map_option (\<lambda>s. books (fst s)) (Library_new (snd (addBook hobbit (empty_library, empty_world))))
       = Some [hobbit\<lparr>genre := None\<rparr>]
   \<and> genre hobbit = Some ''Fantasy''
   \<and> hobbit\<lparr>genre := None\<rparr> \<noteq> hobbit"
  by (simp add: reload_after_addBook fst_addBook)
    (simp add: hobbit_def empty_library_def empty_world_def book_defs Library_new_def loadFromLocalStorage_def)

section \<open>Searching\<close>





end
